theory Spec2Isabelle
  imports Main "HOL-Library.Sublist" "HOL-Library.Multiset"
begin

section \<open>Strings\<close>

text \<open>
  Message texts, file contents and printed lines are \<^typ>\<open>string\<close>s. The characters
  outside ASCII that occur in literals of the source (the emoji of the printed lines)
  are written as their UTF-8 bytes.

  \<open>str.lower\<close> and \<open>str.strip\<close> are built-ins of Python, outside the source: the
  router takes them as parameters (the fields \<open>str_lower\<close> and \<open>str_strip\<close> of its
  environment, below), so that what is proved of the router holds for what they do on
  every text. On a text of ASCII characters they are the two functions defined here:
  \<open>A\<close>..\<open>Z\<close> go to \<open>a\<close>..\<open>z\<close>, and the ASCII characters for which
  \<open>str.isspace\<close> holds are removed from both ends. The example inputs, whose texts
  are ASCII, use them.
\<close>

definition ascii_lower_char :: "char \<Rightarrow> char" where
  "ascii_lower_char c =
     (case map_of (zip ''ABCDEFGHIJKLMNOPQRSTUVWXYZ'' ''abcdefghijklmnopqrstuvwxyz'') c of
        Some d \<Rightarrow> d
      | None \<Rightarrow> c)"

definition ascii_lower :: "string \<Rightarrow> string" where
  "ascii_lower s = map ascii_lower_char s"

definition ascii_isspace :: "char \<Rightarrow> bool" where
  "ascii_isspace c \<longleftrightarrow>
     c \<in> set [CHR 0x09, CHR 0x0A, CHR 0x0B, CHR 0x0C, CHR 0x0D,
                CHR 0x1C, CHR 0x1D, CHR 0x1E, CHR 0x1F, CHR 0x20]"

definition ascii_strip :: "string \<Rightarrow> string" where
  "ascii_strip s = rev (dropWhile ascii_isspace (rev (dropWhile ascii_isspace s)))"

text \<open>\<open>sep.join(xs)\<close>\<close>

fun join :: "string \<Rightarrow> string list \<Rightarrow> string" where
  "join sep [] = []"
| "join sep [x] = x"
| "join sep (x # y # ys) = x @ sep @ join sep (y # ys)"

section \<open>The conversation router (app.py)\<close>

text \<open>
  The exceptions of Python that the source can raise, and \<open>GraphRecursionError\<close>,
  which the graph runtime raises when a run uses up its steps.
\<close>

datatype error =
  IndexError | KeyError string | TypeError | JSONDecodeError | ValueError | GraphRecursionError

text \<open>
  The only tool bound to the model is \<open>search_railway_info\<close>, whose sole argument is
  the query: a tool call is a request for that tool.
\<close>

datatype tool_call = SearchRailwayInfo (query: string)

datatype message =
    SystemMessage string
  | HumanMessage string
  | AIMessage string "tool_call list"
  | ToolMessage string

fun content :: "message \<Rightarrow> string" where
  "content (SystemMessage c) = c"
| "content (HumanMessage c) = c"
| "content (AIMessage c tcs) = c"
| "content (ToolMessage c) = c"

fun is_AIMessage :: "message \<Rightarrow> bool" where
  "is_AIMessage (AIMessage c tcs) = True"
| "is_AIMessage m = False"

fun tool_calls :: "message \<Rightarrow> tool_call list" where
  "tool_calls (AIMessage c tcs) = tcs"
| "tool_calls m = []"

record TicketBooking =
  train_name :: string
  source :: string
  destination :: string
  passenger_name :: string
  class_type :: string

text \<open>
  What a turn does besides computing its reply: the calls of the two language models,
  the calls of the tool, the printed lines.
\<close>

datatype event =
    LLMInvoke "message list"
  | StructuredInvoke "message list"
  | ToolInvoke string
  | Print string

text \<open>
  What the router calls and the source does not define. \<open>llm_with_tools\<close> answers a
  message list with the text and the tool calls of an \<open>AIMessage\<close>;
  \<open>structured_llm\<close> answers with a \<open>TicketBooking\<close>; \<open>str_booking\<close> is \<open>str\<close>
  on that object; \<open>search_railway_info\<close> is the tool, from the query to its text;
  \<open>str_lower\<close> and \<open>str_strip\<close> are \<open>str.lower\<close> and \<open>str.strip\<close>. They are
  taken as total: an exception of a provider ends the turn and is outside this model.
\<close>

record env =
  llm_with_tools :: "message list \<Rightarrow> string \<times> tool_call list"
  structured_llm :: "message list \<Rightarrow> TicketBooking"
  str_booking :: "TicketBooking \<Rightarrow> string"
  search_railway_info :: "string \<Rightarrow> string"
  str_lower :: "string \<Rightarrow> string"
  str_strip :: "string \<Rightarrow> string"

definition irctc_url :: string where
  "irctc_url = ''https://www.irctc.co.in/nget/train-search''"

definition yes_reply :: string where
  "yes_reply =
     (''Great! You can book the ticket using the official IRCTC portal:'' @ [CHR 0x0A] @
      [CHR 0xF0, CHR 0x9F, CHR 0x91, CHR 0x89] @ '' **'') @
     irctc_url @
     (''**'' @ [CHR 0x0A, CHR 0x0A] @
      ''If you'' @ [CHR 0x27] @ ''d like, I can help you find more trains or compare prices!'')"

definition no_reply :: string where
  "no_reply = ''No problem! Tell me what else you want to search or ask.''"

definition yes_words :: "string list" where
  "yes_words = [''yes'', ''y'', ''book'', ''book it'', ''confirm'', ''ok book'']"

definition no_words :: "string list" where
  "no_words = [''no'', ''nope'', ''nah'']"

definition system_prompt :: message where
  "system_prompt = SystemMessage (
     ''You are TransitSense.'' @ [CHR 0x0A] @
     ''1. Use '' @ [CHR 0x27] @ ''search_railway_info'' @ [CHR 0x27] @
     '' tool when user asks about schedules or policies.'' @ [CHR 0x0A] @
     ''2. If user says '' @ [CHR 0x27] @ ''book this'' @ [CHR 0x27] @ '' or '' @
     [CHR 0x27] @ ''confirm ticket'' @ [CHR 0x27] @
     '', ask for passenger name if missing.'' @ [CHR 0x0A] @
     ''3. When ready, output EXACT TEXT: READY_TO_BOOK.'' @ [CHR 0x0A])"

text \<open>
  \<open>agent_logic\<close>: the node returns the message to append, and the model records the
  events of the call. \<open>messages[-1]\<close> raises \<open>IndexError\<close> on an empty list.
\<close>

definition agent_logic :: "env \<Rightarrow> message list \<Rightarrow> error + (message \<times> event list)" where
  "agent_logic E messages =
     (if messages = [] then Inl IndexError
      else
        let user_msg = str_lower E (content (last messages)) in
        if user_msg \<in> set yes_words then Inr (AIMessage yes_reply [], [])
        else if user_msg \<in> set no_words then Inr (AIMessage no_reply [], [])
        else
          (case llm_with_tools E (system_prompt # messages) of
             (c, tcs) \<Rightarrow> Inr (AIMessage c tcs, [LLMInvoke (system_prompt # messages)])))"

text \<open>\<open>booking_parser\<close>\<close>

definition booking_parser :: "env \<Rightarrow> message list \<Rightarrow> message \<times> event list" where
  "booking_parser E messages =
     (AIMessage (str_booking E (structured_llm E messages)) [],
      [Print ([CHR 0xF0, CHR 0x9F, CHR 0x93, CHR 0x9D] @ '' Generating Final Ticket JSON...''),
       StructuredInvoke messages])"

text \<open>
  The tool node (\<open>ToolNode(tools)\<close>): one tool-result message for each tool call of
  the last message, in the order of the calls.
\<close>

definition tool_node :: "env \<Rightarrow> message list \<Rightarrow> error + (message list \<times> event list)" where
  "tool_node E messages =
     (if messages = [] then Inl ValueError
      else if \<not> is_AIMessage (last messages) then Inl ValueError
      else Inr (map (\<lambda>tc. ToolMessage (search_railway_info E (query tc))) (tool_calls (last messages)),
                map (\<lambda>tc. ToolInvoke (query tc)) (tool_calls (last messages))))"

text \<open>The conditional edge after the agent node.\<close>

datatype route = Tools | Booking | End

definition route_after_agent :: "message list \<Rightarrow> error + route" where
  "route_after_agent messages =
     (if messages = [] then Inl IndexError
      else if is_AIMessage (last messages) \<and> tool_calls (last messages) \<noteq> [] then Inr Tools
      else if sublist ''READY_TO_BOOK'' (content (last messages)) then Inr Booking
      else Inr End)"

text \<open>
  The compiled graph, entered at the agent node: agent, then the conditional edge; the
  tool node leads back to the agent, the booking node to the end. A node's messages are
  appended to the state.

  The graph runtime is a library outside the source. It counts the steps of a run
  against its recursion limit and raises \<open>GraphRecursionError\<close> when the limit is
  reached before the graph has ended. \<open>budget\<close> is the number of executions of the
  nodes of this graph (agent, tools, booking) that the limit leaves to one run; it need
  not be the number the library calls \<open>recursion_limit\<close>, which also counts the
  steps the runtime takes by itself. app.py compiles and invokes the graph with no
  configuration, so the budget is the one of the library's default limit. The source
  has no counter of its own.
\<close>

fun run_graph ::
  "nat \<Rightarrow> env \<Rightarrow> message list \<Rightarrow> event list \<Rightarrow> error + message list \<times> event list" where
  "run_graph 0 E messages trace = Inl GraphRecursionError"
| "run_graph (Suc budget) E messages trace =
     (case agent_logic E messages of
        Inl e \<Rightarrow> Inl e
      | Inr (response, ev) \<Rightarrow>
          (case route_after_agent (messages @ [response]) of
             Inl e \<Rightarrow> Inl e
           | Inr Tools \<Rightarrow>
               (case budget of
                  0 \<Rightarrow> Inl GraphRecursionError
                | Suc budget' \<Rightarrow>
                    (case tool_node E (messages @ [response]) of
                       Inl e \<Rightarrow> Inl e
                     | Inr (results, ev') \<Rightarrow>
                         run_graph budget' E (messages @ [response] @ results)
                           (trace @ ev @ ev')))
           | Inr Booking \<Rightarrow>
               (case budget of
                  0 \<Rightarrow> Inl GraphRecursionError
                | Suc budget' \<Rightarrow>
                    (case booking_parser E (messages @ [response]) of
                       (ticket, ev') \<Rightarrow>
                         Inr (messages @ [response, ticket], trace @ ev @ ev')))
           | Inr End \<Rightarrow> Inr (messages @ [response], trace @ ev)))"

text \<open>\<open>app.invoke({"messages": [...]})\<close>\<close>

definition app_invoke ::
  "nat \<Rightarrow> env \<Rightarrow> message list \<Rightarrow> error + message list \<times> event list" where
  "app_invoke budget E input = run_graph budget E input []"

text \<open>
  One round of the chat loop on a line read from the user: the line is stripped;
  \<open>exit\<close> and \<open>quit\<close> leave the loop; any other line is sent to the graph as the
  only message, and the text of the last message of the result is printed. An exception
  of the graph is not caught.
\<close>

datatype turn = Quit | Reply string "event list" | Raised error

definition chat_turn :: "nat \<Rightarrow> env \<Rightarrow> string \<Rightarrow> turn" where
  "chat_turn budget E line =
     (let user_input = str_strip E line in
      if str_lower E user_input \<in> set [''exit'', ''quit''] then Quit
      else
        (case app_invoke budget E [HumanMessage user_input] of
           Inl e \<Rightarrow> Raised e
         | Inr (messages, trace) \<Rightarrow> Reply (content (last messages)) trace))"

section \<open>The retriever (rag_pipeline.py)\<close>

text \<open>
  A \<open>Document\<close>: its text and its metadata, a dictionary from strings to strings.
\<close>

record document =
  page_content :: string
  metadata :: "string \<rightharpoonup> string"

subsection \<open>The schedule file\<close>

text \<open>
  What \<open>json.load\<close> returns, as far as the loader looks at it. The loader iterates
  over \<open>data\<close> and subscripts each element with seven field names, so an element is
  a dictionary from field names to values, or anything else, where \<open>t['name']\<close>
  raises \<open>TypeError\<close>; \<open>data\<close> is the sequence \<open>for t in data\<close> runs over (the
  elements of a JSON array; the keys of a JSON object or the characters of a JSON
  string, none of which is a dictionary), or a value that cannot be iterated (a number,
  a boolean, null). The values of the fields are of any type \<open>'v\<close>; the function \<open>fmt\<close> of the
  definitions below is the text an f-string puts for a value.

  The file itself is missing (\<open>FileNotFoundError\<close>), or is not JSON
  (\<open>JSONDecodeError\<close>), or loads.
\<close>

datatype 'v element = Dict "string \<rightharpoonup> 'v" | NotDict

datatype 'v json_data = Iterable "'v element list" | NotIterable

datatype 'v json_file = JsonNotFound | JsonInvalid | JsonLoaded "'v json_data"

text \<open>\<open>t[k]\<close> on a dictionary\<close>

definition getitem :: "(string \<rightharpoonup> 'v) \<Rightarrow> string \<Rightarrow> error + 'v" where
  "getitem t k = (case t k of None \<Rightarrow> Inl (KeyError k) | Some v \<Rightarrow> Inr v)"

text \<open>
  The f-string of the loop body. Its fields are evaluated from left to right, and the
  first missing key raises.
\<close>

definition train_text :: "('v \<Rightarrow> string) \<Rightarrow> (string \<rightharpoonup> 'v) \<Rightarrow> error + string" where
  "train_text fmt t =
     (case getitem t ''name'' of Inl e \<Rightarrow> Inl e | Inr v_name \<Rightarrow>
      case getitem t ''train_no'' of Inl e \<Rightarrow> Inl e | Inr v_train_no \<Rightarrow>
      case getitem t ''source'' of Inl e \<Rightarrow> Inl e | Inr v_source \<Rightarrow>
      case getitem t ''destination'' of Inl e \<Rightarrow> Inl e | Inr v_destination \<Rightarrow>
      case getitem t ''price'' of Inl e \<Rightarrow> Inl e | Inr v_price \<Rightarrow>
      case getitem t ''class'' of Inl e \<Rightarrow> Inl e | Inr v_class \<Rightarrow>
      case getitem t ''days'' of Inl e \<Rightarrow> Inl e | Inr v_days \<Rightarrow>
        Inr (''Train '' @ fmt v_name @ '' ('' @ fmt v_train_no @ '') travels from '' @
             fmt v_source @ '' to '' @ fmt v_destination @ ''. Price: '' @ fmt v_price @
             ''. Class: '' @ fmt v_class @ ''. Days: '' @ fmt v_days @ ''.''))"

text \<open>The loop \<open>for t in data\<close>: one document for each record, until a record raises.\<close>

fun train_docs_of :: "('v \<Rightarrow> string) \<Rightarrow> 'v element list \<Rightarrow> error + document list" where
  "train_docs_of fmt [] = Inr []"
| "train_docs_of fmt (NotDict # ts) = Inl TypeError"
| "train_docs_of fmt (Dict t # ts) =
     (case train_text fmt t of
        Inl e \<Rightarrow> Inl e
      | Inr text \<Rightarrow>
          (case train_docs_of fmt ts of
             Inl e \<Rightarrow> Inl e
           | Inr docs \<Rightarrow>
               Inr (\<lparr>page_content = text, metadata = [''source'' \<mapsto> ''schedule'']\<rparr> # docs)))"

definition warning_sign :: string where
  "warning_sign = [CHR 0xE2, CHR 0x9A, CHR 0xA0, CHR 0xEF, CHR 0xB8, CHR 0x8F]"

definition not_found_warning :: "string \<Rightarrow> string" where
  "not_found_warning path = warning_sign @ '' Warning: '' @ path @ '' not found.''"

text \<open>
  \<open>_load_json_docs\<close>: the printed lines and the result. Only \<open>FileNotFoundError\<close>
  is caught.
\<close>

definition load_json_docs ::
  "string \<Rightarrow> ('v \<Rightarrow> string) \<Rightarrow> 'v json_file \<Rightarrow> string list \<times> (error + document list)" where
  "load_json_docs json_path fmt file =
     (case file of
        JsonNotFound \<Rightarrow> ([not_found_warning json_path], Inr [])
      | JsonInvalid \<Rightarrow> ([], Inl JSONDecodeError)
      | JsonLoaded NotIterable \<Rightarrow> ([], Inl TypeError)
      | JsonLoaded (Iterable data) \<Rightarrow> ([], train_docs_of fmt data))"

subsection \<open>The policy file\<close>

text \<open>
  \<open>_load_text_docs\<close>. The policy file is its text, or \<open>None\<close> when it is missing.
  The text splitter is a library outside the source: \<open>splitter chunk_size
  chunk_overlap text\<close> stands for the texts of the documents that
  \<open>RecursiveCharacterTextSplitter(chunk_size, chunk_overlap).create_documents([text])\<close>
  returns, in their order.
\<close>

definition load_text_docs ::
  "string \<Rightarrow> (nat \<Rightarrow> nat \<Rightarrow> string \<Rightarrow> string list) \<Rightarrow> string option \<Rightarrow>
   string list \<times> document list" where
  "load_text_docs policy_path splitter file =
     (case file of
        None \<Rightarrow> ([not_found_warning policy_path], [])
      | Some text \<Rightarrow>
          ([], map (\<lambda>d. d\<lparr>metadata := (metadata d)(''source'' \<mapsto> ''policy'')\<rparr>)
                 (map (\<lambda>c. \<lparr>page_content = c, metadata = Map.empty\<rparr>) (splitter 500 80 text))))"

subsection \<open>The vector store\<close>

text \<open>A stable insertion sort, descending in the key.\<close>

fun insert_desc :: "('a \<Rightarrow> 's::linorder) \<Rightarrow> 'a \<Rightarrow> 'a list \<Rightarrow> 'a list" where
  "insert_desc f x [] = [x]"
| "insert_desc f x (y # ys) = (if f x \<le> f y then y # insert_desc f x ys else x # y # ys)"

definition sort_desc :: "('a \<Rightarrow> 's::linorder) \<Rightarrow> 'a list \<Rightarrow> 'a list" where
  "sort_desc f xs = foldl (\<lambda>acc x. insert_desc f x acc) [] xs"

text \<open>
  The retriever made by \<open>as_retriever(search_kwargs={"k": 3})\<close>: the store it reads,
  here the documents the store was built from, and \<open>k\<close>.
\<close>

record retriever_handle =
  store :: "document list"
  k :: nat

text \<open>
  Modelled from the spec: \<open>retriever.invoke(query)\<close>, the nearest-neighbour search of
  the vector store, which is a library outside the source (\<open>FAISS.from_documents\<close>,
  \<open>as_retriever\<close>). The spec: "compute an embedding vector for every Chunk's text",
  "retrieve the k nearest Chunks by vector similarity", "in similarity-descending
  order". \<open>sim q text\<close> is the similarity of the embeddings of the query and of a
  chunk's text, in any linear order; chunks of equal similarity stay in the order of
  the store.
\<close>

definition retriever_invoke ::
  "(string \<Rightarrow> string \<Rightarrow> 's::linorder) \<Rightarrow> retriever_handle \<Rightarrow> string \<Rightarrow> document list" where
  "retriever_invoke sim r q = take (k r) (sort_desc (\<lambda>d. sim q (page_content d)) (store r))"

subsection \<open>TransitRetriever\<close>

record TransitRetriever =
  json_path :: string
  policy_path :: string
  vectorstore :: "document list option"
  retriever :: "retriever_handle option"

text \<open>\<open>str(n)\<close> for the number of chunks in the last printed line\<close>

fun str_nat :: "nat \<Rightarrow> string" where
  "str_nat n =
     (if n < 10 then [''0123456789'' ! n]
      else str_nat (n div 10) @ [''0123456789'' ! (n mod 10)])"

text \<open>The first lines of \<open>_build_pipeline\<close>: both loaders, and \<open>all_docs\<close>.\<close>

definition all_docs ::
  "('v \<Rightarrow> string) \<Rightarrow> (nat \<Rightarrow> nat \<Rightarrow> string \<Rightarrow> string list) \<Rightarrow> TransitRetriever \<Rightarrow>
   'v json_file \<Rightarrow> string option \<Rightarrow> string list \<times> (error + document list)" where
  "all_docs fmt splitter self jf pf =
     (case load_json_docs (json_path self) fmt jf of
        (out, Inl e) \<Rightarrow> (out, Inl e)
      | (out, Inr train_docs) \<Rightarrow>
          (case load_text_docs (policy_path self) splitter pf of
             (out', policy_docs) \<Rightarrow> (out @ out', Inr (train_docs @ policy_docs))))"

definition building_line :: string where
  "building_line = [CHR 0xE2, CHR 0x9A, CHR 0x99, CHR 0xEF, CHR 0xB8, CHR 0x8F] @
     '' Building RAG Pipeline...''"

definition no_documents_line :: string where
  "no_documents_line = [CHR 0xE2, CHR 0x9D, CHR 0x8C] @ '' No documents found to index.''"

definition ready_line :: "nat \<Rightarrow> string" where
  "ready_line n = [CHR 0xE2, CHR 0x9C, CHR 0x85] @ '' RAG Pipeline Ready. Loaded '' @
     str_nat n @ '' chunks.''"

text \<open>\<open>_build_pipeline\<close>: the printed lines, and the object or the exception.\<close>

definition build_pipeline ::
  "('v \<Rightarrow> string) \<Rightarrow> (nat \<Rightarrow> nat \<Rightarrow> string \<Rightarrow> string list) \<Rightarrow> TransitRetriever \<Rightarrow>
   'v json_file \<Rightarrow> string option \<Rightarrow> string list \<times> (error + TransitRetriever)" where
  "build_pipeline fmt splitter self jf pf =
     (case all_docs fmt splitter self jf pf of
        (out, Inl e) \<Rightarrow> (building_line # out, Inl e)
      | (out, Inr docs) \<Rightarrow>
          if docs = [] then (building_line # out @ [no_documents_line], Inr self)
          else (building_line # out @ [ready_line (length docs)],
                Inr (self\<lparr>vectorstore := Some docs,
                          retriever := Some \<lparr>store = docs, k = 3\<rparr>\<rparr>)))"

text \<open>\<open>TransitRetriever()\<close> with the default paths: the fields, then the pipeline\<close>

definition new_TransitRetriever :: TransitRetriever where
  "new_TransitRetriever =
     \<lparr>json_path = ''train_data.json'', policy_path = ''policies.txt'',
      vectorstore = None, retriever = None\<rparr>"

definition TransitRetriever_init ::
  "('v \<Rightarrow> string) \<Rightarrow> (nat \<Rightarrow> nat \<Rightarrow> string \<Rightarrow> string list) \<Rightarrow>
   'v json_file \<Rightarrow> string option \<Rightarrow> string list \<times> (error + TransitRetriever)" where
  "TransitRetriever_init fmt splitter jf pf =
     build_pipeline fmt splitter new_TransitRetriever jf pf"

definition searching_line :: "string \<Rightarrow> string" where
  "searching_line q = [CHR 0xF0, CHR 0x9F, CHR 0x94, CHR 0x8E] @ '' Searching: '' @ q"

text \<open>\<open>search\<close>: the printed lines and the text returned\<close>

definition search ::
  "(string \<Rightarrow> string \<Rightarrow> 's::linorder) \<Rightarrow> TransitRetriever \<Rightarrow> string \<Rightarrow> string list \<times> string" where
  "search sim self q =
     (case retriever self of
        None \<Rightarrow> ([], ''Pipeline not initialized.'')
      | Some r \<Rightarrow>
          ([searching_line q],
           join [CHR 0x0A, CHR 0x0A] (map page_content (retriever_invoke sim r q))))"

subsection \<open>The start of app.py\<close>

text \<open>
  \<open>transit_db = TransitRetriever()\<close> under \<open>try\<close>: any exception is printed and the
  process exits. \<open>str_exc\<close> is \<open>str\<close> on the exception.
\<close>

datatype startup = Exited "string list" | Started TransitRetriever "string list"

definition init_transit_db ::
  "(error \<Rightarrow> string) \<Rightarrow> ('v \<Rightarrow> string) \<Rightarrow> (nat \<Rightarrow> nat \<Rightarrow> string \<Rightarrow> string list) \<Rightarrow>
   'v json_file \<Rightarrow> string option \<Rightarrow> startup" where
  "init_transit_db str_exc fmt splitter jf pf =
     (case TransitRetriever_init fmt splitter jf pf of
        (out, Inl e) \<Rightarrow> Exited (out @ [''Error initializing TransitRetriever: '' @ str_exc e])
      | (out, Inr transit_db) \<Rightarrow> Started transit_db out)"

section \<open>Predicates and example inputs of the statements\<close>

text \<open>
  The field names a record of the schedule must have, and a record that has them all.
\<close>

definition train_fields :: "string list" where
  "train_fields =
     [''name'', ''train_no'', ''source'', ''destination'', ''price'', ''class'', ''days'']"

definition well_formed :: "(string \<rightharpoonup> 'v) \<Rightarrow> bool" where
  "well_formed t \<longleftrightarrow> (\<forall>key \<in> set train_fields. t key \<noteq> None)"

text \<open>The document the loop body makes of a record that has all seven fields.\<close>

definition schedule_doc :: "('v \<Rightarrow> string) \<Rightarrow> (string \<rightharpoonup> 'v) \<Rightarrow> document" where
  "schedule_doc fmt t =
     \<lparr>page_content =
        ''Train '' @ fmt (the (t ''name'')) @ '' ('' @ fmt (the (t ''train_no'')) @
        '') travels from '' @ fmt (the (t ''source'')) @ '' to '' @
        fmt (the (t ''destination'')) @ ''. Price: '' @ fmt (the (t ''price'')) @
        ''. Class: '' @ fmt (the (t ''class'')) @ ''. Days: '' @ fmt (the (t ''days'')) @ ''.'',
      metadata = [''source'' \<mapsto> ''schedule'']\<rparr>"

text \<open>
  Example inputs: a model that answers with a question and requests no tool; two
  records of a schedule whose values are strings, the second without its price; a
  splitter for texts shorter than the window; a similarity.
\<close>

definition example_env :: env where
  "example_env =
     \<lparr>llm_with_tools = (\<lambda>ms. (''Which train?'', [])),
      structured_llm = (\<lambda>ms. \<lparr>train_name = ''Rajdhani Express'', source = ''Mumbai'',
                                destination = ''Delhi'', passenger_name = ''Asha'',
                                class_type = ''3A''\<rparr>),
      str_booking = train_name,
      search_railway_info = (\<lambda>q. ''Pipeline not initialized.''),
      str_lower = ascii_lower,
      str_strip = ascii_strip\<rparr>"

definition example_train :: "string \<rightharpoonup> string" where
  "example_train = [''name'' \<mapsto> ''Rajdhani Express'', ''train_no'' \<mapsto> ''12951'',
     ''source'' \<mapsto> ''Mumbai'', ''destination'' \<mapsto> ''Delhi'', ''price'' \<mapsto> ''2500'',
     ''class'' \<mapsto> ''3A'', ''days'' \<mapsto> ''Daily'']"

definition example_train_no_price :: "string \<rightharpoonup> string" where
  "example_train_no_price = [''name'' \<mapsto> ''Shatabdi Express'', ''train_no'' \<mapsto> ''12002'',
     ''source'' \<mapsto> ''Delhi'', ''destination'' \<mapsto> ''Bhopal'',
     ''class'' \<mapsto> ''CC'', ''days'' \<mapsto> ''Daily'']"

definition example_splitter :: "nat \<Rightarrow> nat \<Rightarrow> string \<Rightarrow> string list" where
  "example_splitter chunk_size chunk_overlap text = (if text = [] then [] else [text])"

definition example_sim :: "string \<Rightarrow> string \<Rightarrow> nat" where
  "example_sim q text = (if sublist q text then 1 else 0)"


text \<open>
  The document made of a window of the policy text, and the object
  \<open>_build_pipeline\<close> leaves when the documents \<open>docs\<close> were loaded.
\<close>

definition policy_doc :: "string \<Rightarrow> document" where
  "policy_doc text = \<lparr>page_content = text, metadata = [''source'' \<mapsto> ''policy'']\<rparr>"

definition built_on :: "document list \<Rightarrow> TransitRetriever" where
  "built_on docs =
     new_TransitRetriever\<lparr>vectorstore := Some docs,
                           retriever := Some \<lparr>store = docs, k = 3\<rparr>\<rparr>"

definition example_docs :: "document list" where
  "example_docs =
     [schedule_doc (\<lambda>v. v) example_train, policy_doc ''Refunds are made within 7 days.'']"


text \<open>
  A model that requests the search tool for the user's question (the system prompt and
  one message) and answers in words once it is given more; the tool is \<open>search\<close> on
  the retriever built from a policy file that holds the text \<open>No\<close>, with no schedule
  file.
\<close>

definition refund_env :: env where
  "refund_env =
     example_env
       \<lparr>llm_with_tools :=
          (\<lambda>ms. if length ms = 2 then ('''', [SearchRailwayInfo ''refund policy''])
                else (''The policy says no.'', [])),
        search_railway_info :=
          (\<lambda>q. snd (search example_sim (built_on [policy_doc ''No'']) q))\<rparr>"

declare str_nat.simps [simp del]

section \<open>The schedule loader\<close>

lemma train_text_well_formed:
  assumes "well_formed t"
  shows "train_text fmt t = Inr (page_content (schedule_doc fmt t))"
  using assms
  by (auto simp: well_formed_def train_fields_def train_text_def getitem_def schedule_doc_def)

lemma train_text_not_well_formed:
  assumes "\<not> well_formed t"
  shows "\<exists>key \<in> set train_fields. t key = None \<and> train_text fmt t = Inl (KeyError key)"
  using assms
  by (auto simp: well_formed_def train_fields_def train_text_def getitem_def
        split: option.splits)

lemma train_docs_of_well_formed:
  "\<forall>t \<in> set rs. well_formed t \<Longrightarrow>
   train_docs_of fmt (map Dict rs) = Inr (map (schedule_doc fmt) rs)"
  by (induction rs) (simp_all add: train_text_well_formed schedule_doc_def)

lemma sublist_skip: "sublist x ys \<Longrightarrow> sublist x (p @ ys)"
  by (metis sublist_append)

lemma sublist_here: "sublist x (x @ s)"
  by simp

lemma schedule_doc_each_field:
  "sublist (fmt (the (t ''name''))) (page_content (schedule_doc fmt t))"
  "sublist (fmt (the (t ''train_no''))) (page_content (schedule_doc fmt t))"
  "sublist (fmt (the (t ''source''))) (page_content (schedule_doc fmt t))"
  "sublist (fmt (the (t ''destination''))) (page_content (schedule_doc fmt t))"
  "sublist (fmt (the (t ''price''))) (page_content (schedule_doc fmt t))"
  "sublist (fmt (the (t ''class''))) (page_content (schedule_doc fmt t))"
  unfolding schedule_doc_def document.select_convs
  by ((rule sublist_here | rule sublist_skip)+)

lemma schedule_doc_fields:
  assumes "key \<in> set [''name'', ''train_no'', ''source'', ''destination'', ''price'', ''class'']"
  shows "sublist (fmt (the (t key))) (page_content (schedule_doc fmt t))"
  using assms schedule_doc_each_field[of fmt t] by auto

lemma train_docs_of_bad:
  assumes "\<forall>t \<in> set good. well_formed t" and "\<not> well_formed bad"
  shows "\<exists>key \<in> set train_fields. bad key = None \<and>
           train_docs_of fmt (map Dict good @ Dict bad # rest) = Inl (KeyError key)"
proof -
  obtain key where key: "key \<in> set train_fields" "bad key = None"
      "train_text fmt bad = Inl (KeyError key)"
    using train_text_not_well_formed[OF assms(2)] by blast
  have "train_docs_of fmt (map Dict good @ Dict bad # rest) = Inl (KeyError key)"
    using assms(1) by (induction good) (simp_all add: key(3) train_text_well_formed)
  with key show ?thesis by blast
qed

text \<open>
  C4: for every schedule file that loads as a list of \<open>N\<close> records that have the
  seven fields, and with the policy file missing, the schedule loader and the combined
  load return exactly \<open>N\<close> chunks, each tagged \<open>schedule\<close>; the text of the chunk of
  a record contains the formatted name, train number, source, destination, price and
  class of that record.
\<close>

theorem schedule_chunks:
  assumes "\<forall>t \<in> set rs. well_formed t"
  shows "\<exists>docs.
     load_json_docs (json_path self) fmt (JsonLoaded (Iterable (map Dict rs))) = ([], Inr docs) \<and>
     all_docs fmt splitter self (JsonLoaded (Iterable (map Dict rs))) None =
       ([not_found_warning (policy_path self)], Inr docs) \<and>
     length docs = length rs \<and>
     (\<forall>i < length rs.
        metadata (docs ! i) = [''source'' \<mapsto> ''schedule''] \<and>
        (\<forall>key \<in> set [''name'', ''train_no'', ''source'', ''destination'', ''price'', ''class''].
           sublist (fmt (the ((rs ! i) key))) (page_content (docs ! i))))"
proof -
  let ?docs = "map (schedule_doc fmt) rs"
  have load: "load_json_docs (json_path self) fmt (JsonLoaded (Iterable (map Dict rs))) =
      ([], Inr ?docs)"
    by (simp add: load_json_docs_def train_docs_of_well_formed[OF assms])
  have all: "all_docs fmt splitter self (JsonLoaded (Iterable (map Dict rs))) None =
      ([not_found_warning (policy_path self)], Inr ?docs)"
    by (simp add: all_docs_def load load_text_docs_def)
  have each: "metadata (?docs ! i) = [''source'' \<mapsto> ''schedule''] \<and>
        (\<forall>key \<in> set [''name'', ''train_no'', ''source'', ''destination'', ''price'', ''class''].
           sublist (fmt (the ((rs ! i) key))) (page_content (?docs ! i)))"
    if "i < length rs" for i
  proof -
    have "?docs ! i = schedule_doc fmt (rs ! i)"
      using that by simp
    moreover have "metadata (schedule_doc fmt (rs ! i)) = [''source'' \<mapsto> ''schedule'']"
      by (simp add: schedule_doc_def)
    ultimately show ?thesis
      using schedule_doc_fields[of _ fmt "rs ! i"] by (simp del: set_simps)
  qed
  show ?thesis
    using load all each by (intro exI[of _ ?docs]) simp
qed

text \<open>C4 on a schedule of two records, with the default paths.\<close>

theorem schedule_chunks_witness:
  "\<exists>docs.
     load_json_docs ''train_data.json'' (\<lambda>v. v)
       (JsonLoaded (Iterable (map Dict [example_train, example_train]))) = ([], Inr docs) \<and>
     all_docs (\<lambda>v. v) example_splitter new_TransitRetriever
       (JsonLoaded (Iterable (map Dict [example_train, example_train]))) None =
       ([not_found_warning ''policies.txt''], Inr docs) \<and>
     length docs = 2 \<and>
     metadata (docs ! 1) = [''source'' \<mapsto> ''schedule''] \<and>
     sublist ''2500'' (page_content (docs ! 1))"
proof -
  have wf: "\<forall>t \<in> set [example_train, example_train]. well_formed t"
    by (simp add: well_formed_def train_fields_def example_train_def)
  have price: "the (example_train ''price'') = ''2500''"
    by (simp add: example_train_def)
  show ?thesis
    using schedule_chunks[OF wf, of new_TransitRetriever "\<lambda>v. v" example_splitter] price
    by (auto simp: new_TransitRetriever_def)
qed

text \<open>
  C10: whenever the schedule file loads as a list in which a record lacks one of the
  seven fields, all records before it being complete, the loader raises \<open>KeyError\<close>
  for a field that record lacks: no chunk is returned, whatever follows the record in
  the file. The exception leaves \<open>TransitRetriever()\<close>, is caught at the start of
  app.py, printed, and the process exits.
\<close>

theorem missing_field_raises:
  assumes "\<forall>t \<in> set good. well_formed t" and "\<not> well_formed bad"
  shows "\<exists>key \<in> set train_fields. bad key = None \<and>
     load_json_docs ''train_data.json'' fmt
       (JsonLoaded (Iterable (map Dict good @ Dict bad # rest))) = ([], Inl (KeyError key)) \<and>
     TransitRetriever_init fmt splitter
       (JsonLoaded (Iterable (map Dict good @ Dict bad # rest))) pf =
       ([building_line], Inl (KeyError key)) \<and>
     init_transit_db str_exc fmt splitter
       (JsonLoaded (Iterable (map Dict good @ Dict bad # rest))) pf =
       Exited [building_line, ''Error initializing TransitRetriever: '' @ str_exc (KeyError key)]"
proof -
  obtain key where key: "key \<in> set train_fields" "bad key = None"
      "train_docs_of fmt (map Dict good @ Dict bad # rest) = Inl (KeyError key)"
    using train_docs_of_bad[OF assms] by blast
  have load: "load_json_docs ''train_data.json'' fmt
       (JsonLoaded (Iterable (map Dict good @ Dict bad # rest))) = ([], Inl (KeyError key))"
    by (simp add: load_json_docs_def key(3))
  have init: "TransitRetriever_init fmt splitter
       (JsonLoaded (Iterable (map Dict good @ Dict bad # rest))) pf =
       ([building_line], Inl (KeyError key))"
    by (simp add: TransitRetriever_init_def build_pipeline_def all_docs_def
          new_TransitRetriever_def load)
  have "init_transit_db str_exc fmt splitter
       (JsonLoaded (Iterable (map Dict good @ Dict bad # rest))) pf =
       Exited [building_line, ''Error initializing TransitRetriever: '' @ str_exc (KeyError key)]"
    by (simp add: init_transit_db_def init)
  with key(1,2) load init show ?thesis by blast
qed

text \<open>C10 on a schedule of three records, the second without its price.\<close>

theorem missing_field_raises_witness:
  "load_json_docs ''train_data.json'' (\<lambda>v. v)
     (JsonLoaded (Iterable [Dict example_train, Dict example_train_no_price, Dict example_train]))
     = ([], Inl (KeyError ''price'')) \<and>
   init_transit_db (\<lambda>e. ''KeyError'') (\<lambda>v. v) example_splitter
     (JsonLoaded (Iterable [Dict example_train, Dict example_train_no_price, Dict example_train]))
     (Some ''Refunds are made within 7 days.'') =
     Exited [building_line, ''Error initializing TransitRetriever: KeyError'']"
proof -
  have wf: "\<forall>t \<in> set [example_train]. well_formed t"
    by (simp add: well_formed_def train_fields_def example_train_def)
  have bad: "\<not> well_formed example_train_no_price"
    by (simp add: well_formed_def train_fields_def example_train_no_price_def)
  have only: "key \<in> set train_fields \<Longrightarrow> example_train_no_price key = None \<Longrightarrow> key = ''price''"
    for key
    by (auto simp: train_fields_def example_train_no_price_def)
  show ?thesis
    using only
      missing_field_raises[OF wf bad, of "\<lambda>v. v" "[Dict example_train]" example_splitter
        "Some ''Refunds are made within 7 days.''" "\<lambda>e. ''KeyError''"]
    by (auto simp del: set_simps)
qed

section \<open>Missing files and the empty index\<close>

lemma load_text_docs_windows:
  "load_text_docs path splitter (Some text) =
     ([], map policy_doc (splitter 500 80 text))"
  by (simp add: load_text_docs_def policy_doc_def)

text \<open>
  C5: a missing schedule file makes the schedule loader print the warning
  \<open>Warning: <path> not found.\<close> (after the warning sign) and return no chunk, and
  the combined load is then the chunks of the policy file, one for each window of the
  splitter; a missing policy file makes the policy loader print the same warning with
  its own path and return no chunk, and the combined load is then the chunks of the
  schedule file, whenever the schedule loader returns. With both files missing both
  warnings are printed and the load is empty. Nothing raises.
\<close>

theorem missing_file_is_not_fatal:
  "load_json_docs (json_path self) fmt JsonNotFound =
     ([[CHR 0xE2, CHR 0x9A, CHR 0xA0, CHR 0xEF, CHR 0xB8, CHR 0x8F] @ '' Warning: '' @
       json_path self @ '' not found.''], Inr []) \<and>
   load_text_docs (policy_path self) splitter None =
     ([[CHR 0xE2, CHR 0x9A, CHR 0xA0, CHR 0xEF, CHR 0xB8, CHR 0x8F] @ '' Warning: '' @
       policy_path self @ '' not found.''], []) \<and>
   all_docs fmt splitter self JsonNotFound (Some text) =
     ([[CHR 0xE2, CHR 0x9A, CHR 0xA0, CHR 0xEF, CHR 0xB8, CHR 0x8F] @ '' Warning: '' @
       json_path self @ '' not found.''],
      Inr (map (\<lambda>c. \<lparr>page_content = c, metadata = [''source'' \<mapsto> ''policy'']\<rparr>)
             (splitter 500 80 text))) \<and>
   all_docs fmt splitter self JsonNotFound None =
     ([[CHR 0xE2, CHR 0x9A, CHR 0xA0, CHR 0xEF, CHR 0xB8, CHR 0x8F] @ '' Warning: '' @
       json_path self @ '' not found.'',
       [CHR 0xE2, CHR 0x9A, CHR 0xA0, CHR 0xEF, CHR 0xB8, CHR 0x8F] @ '' Warning: '' @
       policy_path self @ '' not found.''], Inr []) \<and>
   (load_json_docs (json_path self) fmt jf = (out, Inr docs) \<longrightarrow>
      all_docs fmt splitter self jf None =
        (out @ [[CHR 0xE2, CHR 0x9A, CHR 0xA0, CHR 0xEF, CHR 0xB8, CHR 0x8F] @ '' Warning: '' @
                policy_path self @ '' not found.''], Inr docs))"
  by (simp add: load_json_docs_def load_text_docs_def all_docs_def not_found_warning_def
        warning_sign_def split: prod.splits)

text \<open>
  C5 on a missing schedule file with a policy of one sentence, and on a schedule of one
  record with a missing policy file, with the default paths.
\<close>

theorem missing_file_is_not_fatal_witness:
  "all_docs (\<lambda>v. v) example_splitter new_TransitRetriever JsonNotFound
     (Some ''Refunds are made within 7 days.'') =
     ([[CHR 0xE2, CHR 0x9A, CHR 0xA0, CHR 0xEF, CHR 0xB8, CHR 0x8F] @
       '' Warning: train_data.json not found.''],
      Inr [\<lparr>page_content = ''Refunds are made within 7 days.'',
            metadata = [''source'' \<mapsto> ''policy'']\<rparr>]) \<and>
   load_json_docs ''train_data.json'' (\<lambda>v. v) (JsonLoaded (Iterable [Dict example_train])) =
     ([], Inr [schedule_doc (\<lambda>v. v) example_train]) \<and>
   all_docs (\<lambda>v. v) example_splitter new_TransitRetriever
     (JsonLoaded (Iterable [Dict example_train])) None =
     ([[CHR 0xE2, CHR 0x9A, CHR 0xA0, CHR 0xEF, CHR 0xB8, CHR 0x8F] @
       '' Warning: policies.txt not found.''],
      Inr [schedule_doc (\<lambda>v. v) example_train])"
proof -
  have wf: "well_formed example_train"
    by (simp add: well_formed_def train_fields_def example_train_def)
  have load: "load_json_docs (json_path new_TransitRetriever) (\<lambda>v. v)
      (JsonLoaded (Iterable [Dict example_train])) = ([], Inr [schedule_doc (\<lambda>v. v) example_train])"
    by (simp add: load_json_docs_def train_text_well_formed[OF wf] schedule_doc_def)
  show ?thesis
    using load
      missing_file_is_not_fatal[of new_TransitRetriever "\<lambda>v. v" example_splitter
        "''Refunds are made within 7 days.''" "JsonLoaded (Iterable [Dict example_train])"
        "[]" "[schedule_doc (\<lambda>v. v) example_train]"]
    by (simp add: new_TransitRetriever_def example_splitter_def)
qed

text \<open>
  C3: if the combined sequence of chunks is empty, \<open>TransitRetriever()\<close> returns an
  object whose vector store and retriever are unset, and \<open>search\<close> on it returns the
  text \<open>Pipeline not initialized.\<close> for every query, printing nothing. (\<open>search\<close>
  has no exception in this model: its result is the text.)
\<close>

theorem empty_index_search:
  assumes "all_docs fmt splitter new_TransitRetriever jf pf = (out, Inr [])"
  shows "\<exists>db. TransitRetriever_init fmt splitter jf pf =
            (building_line # out @ [no_documents_line], Inr db) \<and>
          vectorstore db = None \<and> retriever db = None \<and>
          search sim db q = ([], ''Pipeline not initialized.'')"
  using assms
  by (simp add: TransitRetriever_init_def build_pipeline_def search_def new_TransitRetriever_def)

text \<open>C3 on an empty schedule list and an empty policy text.\<close>

theorem empty_index_search_witness:
  "all_docs (\<lambda>v. v) example_splitter new_TransitRetriever (JsonLoaded (Iterable [])) (Some '''') =
     ([], Inr []) \<and>
   (\<exists>db. TransitRetriever_init (\<lambda>v. v) example_splitter (JsonLoaded (Iterable [])) (Some '''') =
            ([building_line, no_documents_line], Inr db) \<and>
          vectorstore db = None \<and> retriever db = None \<and>
          search example_sim db ''trains to Delhi'' = ([], ''Pipeline not initialized.''))"
proof -
  have empty: "all_docs (\<lambda>v. v) example_splitter new_TransitRetriever
      (JsonLoaded (Iterable [])) (Some '''') = ([], Inr [])"
    by (simp add: all_docs_def load_json_docs_def load_text_docs_def example_splitter_def)
  show ?thesis
    using empty empty_index_search[OF empty, of example_sim "''trains to Delhi''"] by simp
qed

section \<open>Search on a built index\<close>

lemma set_insert_desc: "set (insert_desc f x xs) = insert x (set xs)"
  by (induction xs) auto

lemma mset_insert_desc: "mset (insert_desc f x xs) = add_mset x (mset xs)"
  by (induction xs) auto

lemma sorted_insert_desc:
  "sorted_wrt (\<lambda>a b. f b \<le> f a) xs \<Longrightarrow> sorted_wrt (\<lambda>a b. f b \<le> f a) (insert_desc f x xs)"
  by (induction xs) (auto simp: set_insert_desc)

lemma foldl_insert_desc:
  "mset (foldl (\<lambda>acc x. insert_desc f x acc) acc xs) = mset acc + mset xs \<and>
   (sorted_wrt (\<lambda>a b. f b \<le> f a) acc \<longrightarrow>
    sorted_wrt (\<lambda>a b. f b \<le> f a) (foldl (\<lambda>acc x. insert_desc f x acc) acc xs))"
  by (induction xs arbitrary: acc) (simp_all add: mset_insert_desc sorted_insert_desc)

lemma mset_sort_desc: "mset (sort_desc f xs) = mset xs"
  using foldl_insert_desc[of f "[]" xs] by (simp add: sort_desc_def)

lemma sorted_sort_desc: "sorted_wrt (\<lambda>a b. f b \<le> f a) (sort_desc f xs)"
  using foldl_insert_desc[of f "[]" xs] by (simp add: sort_desc_def)

lemma init_built:
  assumes "TransitRetriever_init fmt splitter jf pf = (out, Inr db)"
    and "vectorstore db = Some docs"
  shows "retriever db = Some \<lparr>store = docs, k = 3\<rparr>"
  using assms
  by (auto simp: TransitRetriever_init_def build_pipeline_def new_TransitRetriever_def
        split: prod.splits sum.splits if_splits)

lemma join_concat:
  "xs \<noteq> [] \<Longrightarrow> join sep xs = hd xs @ concat (map (\<lambda>x. sep @ x) (tl xs))"
  by (induction sep xs rule: join.induct) simp_all

lemma init_built_nonempty:
  assumes "TransitRetriever_init fmt splitter jf pf = (out, Inr db)"
    and "vectorstore db = Some docs"
  shows "docs \<noteq> []"
  using assms
  by (auto simp: TransitRetriever_init_def build_pipeline_def new_TransitRetriever_def
        split: prod.splits sum.splits if_splits)

text \<open>
  C6: on an object built by \<open>TransitRetriever()\<close> over the documents \<open>docs\<close>,
  \<open>search\<close> returns, for every query, the text of the first of the documents
  \<open>top\<close> followed, for each further one, by two line feeds and its text, where
  \<open>top\<close> are at most three documents (three, or all of them when there are fewer)
  that begin a listing of \<open>docs\<close> by similarity to the query, descending.
\<close>

theorem search_top_three:
  assumes "TransitRetriever_init fmt splitter jf pf = (out, Inr db)"
    and "vectorstore db = Some docs"
  shows "\<exists>top rest.
     snd (search sim db q) =
       page_content (hd top) @
       concat (map (\<lambda>d. [CHR 0x0A, CHR 0x0A] @ page_content d) (tl top)) \<and>
     top \<noteq> [] \<and> length top \<le> 3 \<and> length top = min 3 (length docs) \<and>
     mset (top @ rest) = mset docs \<and>
     sorted_wrt (\<lambda>a b. sim q (page_content b) \<le> sim q (page_content a)) (top @ rest)"
proof -
  let ?sorted = "sort_desc (\<lambda>d. sim q (page_content d)) docs"
  let ?top = "take 3 ?sorted"
  have r: "retriever db = Some \<lparr>store = docs, k = 3\<rparr>"
    using init_built[OF assms] .
  have len: "length ?sorted = length docs"
    using mset_sort_desc[of "\<lambda>d. sim q (page_content d)" docs] by (metis size_mset)
  have "docs \<noteq> []"
    using init_built_nonempty[OF assms] .
  then have top: "?top \<noteq> []"
    using len by (cases ?sorted) auto
  have "snd (search sim db q) = join [CHR 0x0A, CHR 0x0A] (map page_content ?top)"
    by (simp add: search_def r retriever_invoke_def)
  also have "\<dots> = hd (map page_content ?top) @
      concat (map (\<lambda>x. [CHR 0x0A, CHR 0x0A] @ x) (tl (map page_content ?top)))"
    using top by (intro join_concat) simp
  also have "\<dots> = page_content (hd ?top) @
      concat (map (\<lambda>d. [CHR 0x0A, CHR 0x0A] @ page_content d) (tl ?top))"
    using top by (simp add: hd_map map_tl comp_def)
  finally have s: "snd (search sim db q) = page_content (hd ?top) @
      concat (map (\<lambda>d. [CHR 0x0A, CHR 0x0A] @ page_content d) (tl ?top))" .
  have "mset (?top @ drop 3 ?sorted) = mset docs"
    by (simp add: mset_sort_desc)
  moreover have "sorted_wrt (\<lambda>a b. sim q (page_content b) \<le> sim q (page_content a))
      (?top @ drop 3 ?sorted)"
    using sorted_sort_desc[of "\<lambda>d. sim q (page_content d)" docs] by simp
  moreover have "length ?top = min 3 (length docs)"
    using len by simp
  ultimately show ?thesis
    using s top by (intro exI[of _ ?top] exI[of _ "drop 3 ?sorted"]) simp
qed

text \<open>
  C6 on the index of a schedule of one record and a policy of one sentence, for the
  query \<open>Refunds\<close>: the sentence of the policy, a blank line, the sentence of the
  train.
\<close>

theorem search_top_three_witness:
  "TransitRetriever_init (\<lambda>v. v) example_splitter (JsonLoaded (Iterable [Dict example_train]))
     (Some ''Refunds are made within 7 days.'') =
     ([building_line, ready_line 2], Inr (built_on example_docs)) \<and>
   vectorstore (built_on example_docs) = Some example_docs \<and>
   (\<exists>top rest.
      snd (search example_sim (built_on example_docs) ''Refunds'') =
        page_content (hd top) @
        concat (map (\<lambda>d. [CHR 0x0A, CHR 0x0A] @ page_content d) (tl top)) \<and>
      top \<noteq> [] \<and> length top \<le> 3 \<and> length top = min 3 (length example_docs) \<and>
      mset (top @ rest) = mset example_docs \<and>
      sorted_wrt (\<lambda>a b. example_sim ''Refunds'' (page_content b)
                          \<le> example_sim ''Refunds'' (page_content a)) (top @ rest)) \<and>
   snd (search example_sim (built_on example_docs) ''Refunds'') =
     ''Refunds are made within 7 days.'' @ [CHR 0x0A, CHR 0x0A] @
     ''Train Rajdhani Express (12951) travels from Mumbai to Delhi. '' @
     ''Price: 2500. Class: 3A. Days: Daily.''"
proof -
  have wf: "well_formed example_train"
    by (simp add: well_formed_def train_fields_def example_train_def)
  have init: "TransitRetriever_init (\<lambda>v. v) example_splitter
      (JsonLoaded (Iterable [Dict example_train])) (Some ''Refunds are made within 7 days.'') =
      ([building_line, ready_line 2], Inr (built_on example_docs))"
    by (simp add: TransitRetriever_init_def build_pipeline_def all_docs_def load_json_docs_def
          train_text_well_formed[OF wf] load_text_docs_windows example_splitter_def
          built_on_def example_docs_def schedule_doc_def numeral_2_eq_2)
  have store: "vectorstore (built_on example_docs) = Some example_docs"
    by (simp add: built_on_def)
  have res: "snd (search example_sim (built_on example_docs) ''Refunds'') =
     ''Refunds are made within 7 days.'' @ [CHR 0x0A, CHR 0x0A] @
     ''Train Rajdhani Express (12951) travels from Mumbai to Delhi. '' @
     ''Price: 2500. Class: 3A. Days: Daily.''"
    by (simp add: search_def built_on_def example_docs_def retriever_invoke_def sort_desc_def
        policy_doc_def schedule_doc_def example_sim_def example_train_def sublist_Cons_right)
  show ?thesis
    using init store res search_top_three[OF init store, of example_sim "''Refunds''"]
    by simp
qed

section \<open>The canned replies of the agent step\<close>

lemma url_in_yes_reply: "sublist ''https://www.irctc.co.in/nget/train-search'' yes_reply"
  unfolding yes_reply_def irctc_url_def by (rule sublist_appendI)

lemma yes_reply_not_ready: "\<not> sublist ''READY_TO_BOOK'' yes_reply"
  by (simp add: yes_reply_def irctc_url_def sublist_Cons_right)

lemma no_reply_not_ready: "\<not> sublist ''READY_TO_BOOK'' no_reply"
  by (simp add: no_reply_def sublist_Cons_right)

lemma set_yes_words:
  "{''yes'', ''y'', ''book'', ''book it'', ''confirm'', ''ok book''} = set yes_words"
  by (simp add: yes_words_def)

lemma set_no_words: "{''no'', ''nope'', ''nah''} = set no_words"
  by (simp add: no_words_def)


lemma agent_logic_yes:
  "messages \<noteq> [] \<Longrightarrow> str_lower E (content (last messages)) \<in> set yes_words \<Longrightarrow>
   agent_logic E messages = Inr (AIMessage yes_reply [], [])"
  by (simp add: agent_logic_def)

lemma yes_no_disjoint: "u \<in> set yes_words \<Longrightarrow> u \<notin> set no_words"
  by (auto simp: yes_words_def no_words_def)

lemma agent_logic_no:
  "messages \<noteq> [] \<Longrightarrow> str_lower E (content (last messages)) \<in> set no_words \<Longrightarrow>
   agent_logic E messages = Inr (AIMessage no_reply [], [])"
  using yes_no_disjoint[of "str_lower E (content (last messages))"]
  by (auto simp: agent_logic_def Let_def simp del: set_simps)

lemma run_graph_yes:
  "messages \<noteq> [] \<Longrightarrow> str_lower E (content (last messages)) \<in> set yes_words \<Longrightarrow>
   run_graph (Suc budget) E messages trace = Inr (messages @ [AIMessage yes_reply []], trace)"
  by (simp add: agent_logic_yes route_after_agent_def yes_reply_not_ready)

lemma run_graph_no:
  "messages \<noteq> [] \<Longrightarrow> str_lower E (content (last messages)) \<in> set no_words \<Longrightarrow>
   run_graph (Suc budget) E messages trace = Inr (messages @ [AIMessage no_reply []], trace)"
  by (simp add: agent_logic_no route_after_agent_def no_reply_not_ready)

lemma yes_not_exit: "u \<in> set yes_words \<Longrightarrow> u \<notin> set [''exit'', ''quit'']"
  by (auto simp: yes_words_def)

lemma no_not_exit: "u \<in> set no_words \<Longrightarrow> u \<notin> set [''exit'', ''quit'']"
  by (auto simp: no_words_def)

lemma chat_turn_yes:
  "str_lower E (str_strip E line) \<in> set yes_words \<Longrightarrow>
   chat_turn (Suc budget) E line = Reply yes_reply []"
  using yes_not_exit[of "str_lower E (str_strip E line)"]
  by (simp add: chat_turn_def app_invoke_def Let_def run_graph_yes del: set_simps run_graph.simps)

lemma chat_turn_no:
  "str_lower E (str_strip E line) \<in> set no_words \<Longrightarrow>
   chat_turn (Suc budget) E line = Reply no_reply []"
  using no_not_exit[of "str_lower E (str_strip E line)"]
  by (simp add: chat_turn_def app_invoke_def Let_def run_graph_no del: set_simps run_graph.simps)

text \<open>
  C1, as the claim states it, fails: the agent step lower-cases the text of the latest
  message and does not trim it. On the state whose only message is \<open>" yes"\<close>, which
  trimmed and lower-cased is \<open>yes\<close>, it calls the language model.
\<close>

theorem agent_yes_untrimmed_counterexample:
  "str_lower example_env (str_strip example_env '' yes'') \<in>
     {''yes'', ''y'', ''book'', ''book it'', ''confirm'', ''ok book''} \<and>
   agent_logic example_env [HumanMessage '' yes''] =
     Inr (AIMessage ''Which train?'' [], [LLMInvoke [system_prompt, HumanMessage '' yes'']])"
  by (simp add: agent_logic_def example_env_def ascii_lower_def ascii_lower_char_def
        ascii_strip_def ascii_isspace_def yes_words_def no_words_def)

text \<open>
  C1, amended: for every conversation state whose latest message text, lower-cased by
  \<open>str.lower\<close> and not trimmed, is a member of the affirmative set, the agent step
  returns the fixed booking-link reply and records no call of a model or of the tool,
  and the graph, on any budget of at least one step, ends the turn with that reply
  appended and nothing else done. The trimming is done by the chat loop: every typed
  line whose text, trimmed by \<open>str.strip\<close> and lower-cased by \<open>str.lower\<close>, is in
  the set is answered with the fixed reply, with no event. The reply contains the
  IRCTC URL. This holds whatever \<open>str.lower\<close> and \<open>str.strip\<close> do on a text, so
  for every text of Python.
\<close>

theorem agent_yes_fixed_reply:
  "(messages \<noteq> [] \<and>
    str_lower E (content (last messages)) \<in>
      {''yes'', ''y'', ''book'', ''book it'', ''confirm'', ''ok book''} \<longrightarrow>
      agent_logic E messages = Inr (AIMessage yes_reply [], []) \<and>
      run_graph (Suc budget) E messages trace =
        Inr (messages @ [AIMessage yes_reply []], trace)) \<and>
   (str_lower E (str_strip E line) \<in>
      {''yes'', ''y'', ''book'', ''book it'', ''confirm'', ''ok book''} \<longrightarrow>
      chat_turn (Suc budget) E line = Reply yes_reply []) \<and>
   sublist ''https://www.irctc.co.in/nget/train-search'' yes_reply"
  unfolding set_yes_words
  using agent_logic_yes[of messages E] run_graph_yes[of messages E budget trace]
    chat_turn_yes[of E line budget] url_in_yes_reply
  by blast

text \<open>
  C1, amended, on the state \<open>["Book It"]\<close> and on the typed line \<open>"  YES "\<close>, with
  a budget of 25 steps.
\<close>

theorem agent_yes_fixed_reply_witness:
  "agent_logic example_env [HumanMessage ''Book It''] = Inr (AIMessage yes_reply [], []) \<and>
   run_graph 25 example_env [HumanMessage ''Book It''] [] =
     Inr ([HumanMessage ''Book It'', AIMessage yes_reply []], []) \<and>
   chat_turn 25 example_env ''  YES '' = Reply yes_reply [] \<and>
   sublist ''https://www.irctc.co.in/nget/train-search'' yes_reply"
proof -
  have a: "str_lower example_env (content (last [HumanMessage ''Book It''])) \<in>
      {''yes'', ''y'', ''book'', ''book it'', ''confirm'', ''ok book''}"
    by (simp add: example_env_def ascii_lower_def ascii_lower_char_def)
  have b: "str_lower example_env (str_strip example_env ''  YES '') \<in>
      {''yes'', ''y'', ''book'', ''book it'', ''confirm'', ''ok book''}"
    by (simp add: example_env_def ascii_lower_def ascii_lower_char_def ascii_strip_def
          ascii_isspace_def)
  show ?thesis
    using a b agent_yes_fixed_reply [of "[HumanMessage ''Book It'']" example_env 24 "[]" "''  YES ''"]
    by (simp del: run_graph.simps set_simps)
qed

text \<open>
  C7, as the claim states it, fails for the same reason: on the state whose only
  message is \<open>"no "\<close> the agent step calls the language model.
\<close>

theorem agent_no_untrimmed_counterexample:
  "str_lower example_env (str_strip example_env ''no '') \<in> {''no'', ''nope'', ''nah''} \<and>
   agent_logic example_env [HumanMessage ''no ''] =
     Inr (AIMessage ''Which train?'' [], [LLMInvoke [system_prompt, HumanMessage ''no '']])"
  by (simp add: agent_logic_def example_env_def ascii_lower_def ascii_lower_char_def
        ascii_strip_def ascii_isspace_def yes_words_def no_words_def)

text \<open>
  C7, amended: for every conversation state whose latest message text, lower-cased by
  \<open>str.lower\<close> and not trimmed, is a member of the negative set, the agent step
  returns the fixed decline reply \<open>No problem! Tell me what else you want to search or
  ask.\<close> and records no call of a model or of the tool, and the graph, on any budget of
  at least one step, ends the turn with that reply appended and nothing else done.
  Every typed line whose text, trimmed by \<open>str.strip\<close> and lower-cased by
  \<open>str.lower\<close>, is in the set is answered with the fixed decline reply, with no
  event. This holds whatever \<open>str.lower\<close> and \<open>str.strip\<close> do on a text, so for
  every text of Python.
\<close>

theorem agent_no_fixed_reply:
  "(messages \<noteq> [] \<and>
    str_lower E (content (last messages)) \<in> {''no'', ''nope'', ''nah''} \<longrightarrow>
      agent_logic E messages =
        Inr (AIMessage ''No problem! Tell me what else you want to search or ask.'' [], []) \<and>
      run_graph (Suc budget) E messages trace =
        Inr (messages @
               [AIMessage ''No problem! Tell me what else you want to search or ask.'' []],
             trace)) \<and>
   (str_lower E (str_strip E line) \<in> {''no'', ''nope'', ''nah''} \<longrightarrow>
      chat_turn (Suc budget) E line =
        Reply ''No problem! Tell me what else you want to search or ask.'' [])"
  unfolding set_no_words
  using agent_logic_no[of messages E] run_graph_no[of messages E budget trace]
    chat_turn_no[of E line budget]
  unfolding no_reply_def by blast

text \<open>
  C7, amended, on the state \<open>["Nope"]\<close> and on the typed line \<open>" NO"\<close>, with a
  budget of 25 steps.
\<close>

theorem agent_no_fixed_reply_witness:
  "agent_logic example_env [HumanMessage ''Nope''] =
     Inr (AIMessage ''No problem! Tell me what else you want to search or ask.'' [], []) \<and>
   run_graph 25 example_env [HumanMessage ''Nope''] [] =
     Inr ([HumanMessage ''Nope'',
           AIMessage ''No problem! Tell me what else you want to search or ask.'' []], []) \<and>
   chat_turn 25 example_env '' NO'' =
     Reply ''No problem! Tell me what else you want to search or ask.'' []"
proof -
  have a: "str_lower example_env (content (last [HumanMessage ''Nope''])) \<in> {''no'', ''nope'', ''nah''}"
    by (simp add: example_env_def ascii_lower_def ascii_lower_char_def)
  have b: "str_lower example_env (str_strip example_env '' NO'') \<in> {''no'', ''nope'', ''nah''}"
    by (simp add: example_env_def ascii_lower_def ascii_lower_char_def ascii_strip_def
          ascii_isspace_def)
  show ?thesis
    using a b agent_no_fixed_reply [of "[HumanMessage ''Nope'']" example_env 24 "[]" "'' NO''"]
    by (simp del: run_graph.simps set_simps)
qed

section \<open>The graph\<close>








text \<open>
  C2 on the code. After a tool result the graph goes back to the agent node, and the
  agent node reads the latest message, now the tool result, as the user's message. The
  index built from a policy file that holds \<open>No\<close> answers every search with \<open>No\<close>;
  when the model requests a search, the agent step then returns the fixed decline reply
  and the model is not invoked again: the trace holds one model call. This is so on
  every budget of at least the three steps the run takes.
\<close>

theorem tool_result_read_as_user_message:
  "TransitRetriever_init (\<lambda>v. v :: string) example_splitter JsonNotFound (Some ''No'') =
     ([building_line, not_found_warning ''train_data.json'', ready_line 1],
      Inr (built_on [policy_doc ''No''])) \<and>
   run_graph (Suc (Suc (Suc budget))) refund_env [HumanMessage ''Is my ticket refundable?''] [] =
     Inr ([HumanMessage ''Is my ticket refundable?'',
           AIMessage '''' [SearchRailwayInfo ''refund policy''],
           ToolMessage ''No'',
           AIMessage no_reply []],
          [LLMInvoke [system_prompt, HumanMessage ''Is my ticket refundable?''],
           ToolInvoke ''refund policy''])"
proof -
  have init: "TransitRetriever_init (\<lambda>v. v :: string) example_splitter JsonNotFound (Some ''No'') =
     ([building_line, not_found_warning ''train_data.json'', ready_line 1],
      Inr (built_on [policy_doc ''No'']))"
    by (simp add: TransitRetriever_init_def build_pipeline_def all_docs_def load_json_docs_def
          load_text_docs_windows example_splitter_def built_on_def new_TransitRetriever_def)
  have tool: "search_railway_info refund_env q = ''No''" for q
    by (simp add: refund_env_def search_def built_on_def retriever_invoke_def sort_desc_def
          policy_doc_def)
  have first: "agent_logic refund_env [HumanMessage ''Is my ticket refundable?''] =
      Inr (AIMessage '''' [SearchRailwayInfo ''refund policy''],
           [LLMInvoke [system_prompt, HumanMessage ''Is my ticket refundable?'']])"
    by (simp add: agent_logic_def refund_env_def example_env_def ascii_lower_def
          ascii_lower_char_def yes_words_def no_words_def)
  have second: "agent_logic refund_env
       [HumanMessage ''Is my ticket refundable?'',
        AIMessage '''' [SearchRailwayInfo ''refund policy''], ToolMessage ''No''] =
      Inr (AIMessage no_reply [], [])"
    by (rule agent_logic_no)
       (simp_all add: refund_env_def example_env_def ascii_lower_def ascii_lower_char_def
          no_words_def)
  have run: "run_graph (Suc (Suc (Suc budget))) refund_env
       [HumanMessage ''Is my ticket refundable?''] [] =
     Inr ([HumanMessage ''Is my ticket refundable?'',
           AIMessage '''' [SearchRailwayInfo ''refund policy''],
           ToolMessage ''No'',
           AIMessage no_reply []],
          [LLMInvoke [system_prompt, HumanMessage ''Is my ticket refundable?''],
           ToolInvoke ''refund policy''])"
    by (simp add: first second route_after_agent_def tool_node_def tool no_reply_not_ready)
  show ?thesis using init run by simp
qed

end
